theory Spec2Isabelle
  imports Complex_Main "HOL-Library.Multiset"
begin

section \<open>Data model of \<open>pyro/contrib/funsor/infer/traceenum_elbo.py\<close>\<close>

text \<open>
  Variable names (plate names, site names, funsor input names) are Python strings.
\<close>

type_synonym var = string

text \<open>
  The two reduction operators the module passes to the funsor library:
  \<open>funsor.ops.logaddexp\<close> and \<open>funsor.ops.add\<close>.
\<close>

datatype ops = ops_logaddexp | ops_add

text \<open>
  The funsor library is an external collaborator.  Its operations are the fields of a
  record that every function of the module takes as its first argument; \<open>'f\<close> is the
  type of funsors.  Funsors are immutable values: \<open>a * b\<close>, \<open>-a\<close> and \<open>a + b\<close> return
  new funsors, and an augmented assignment \<open>x *= s\<close> rebinds \<open>x\<close> to \<open>x * s\<close>.
  \<^item> \<open>inputs f\<close>: the key set of \<open>f.inputs\<close>;
  \<^item> \<open>to_funsor r\<close>: \<open>to_funsor(1.)\<close>, \<open>to_funsor(0, output=funsor.reals())\<close>;
  \<^item> \<open>mul\<close>, \<open>neg\<close>, \<open>add\<close>: the operators \<open>*\<close>, unary \<open>-\<close>, \<open>+\<close>;
  \<^item> \<open>partial_sum_product sum_op prod_op factors plates eliminate\<close> and
    \<open>sum_product\<close>, of \<open>funsor.sum_product\<close>;
  \<^item> \<open>Integrate log_measure integrand reduced_vars\<close>: \<open>funsor.Integrate\<close>;
  \<^item> \<open>reduce op f reduced_vars\<close>: the method \<open>f.reduce(op, reduced_vars)\<close>;
  \<^item> \<open>apply_optimizer\<close>, \<open>to_data\<close>: the evaluation of the lazy expression to a number.
\<close>

record 'f funsor_lib =
  inputs :: "'f \<Rightarrow> var set"
  to_funsor :: "real \<Rightarrow> 'f"
  mul :: "'f \<Rightarrow> 'f \<Rightarrow> 'f"
  neg :: "'f \<Rightarrow> 'f"
  add :: "'f \<Rightarrow> 'f \<Rightarrow> 'f"
  partial_sum_product :: "ops \<Rightarrow> ops \<Rightarrow> 'f list \<Rightarrow> var set \<Rightarrow> var set \<Rightarrow> 'f list"
  sum_product :: "ops \<Rightarrow> ops \<Rightarrow> 'f list \<Rightarrow> var set \<Rightarrow> var set \<Rightarrow> 'f"
  Integrate :: "'f \<Rightarrow> 'f \<Rightarrow> var set \<Rightarrow> 'f"
  reduce :: "ops \<Rightarrow> 'f \<Rightarrow> var set \<Rightarrow> 'f"
  apply_optimizer :: "'f \<Rightarrow> 'f"
  to_data :: "'f \<Rightarrow> real"

text \<open>An entry \<open>f\<close> of a site's \<open>cond_indep_stack\<close>: \<open>f.name\<close> and \<open>f.vectorized\<close>.\<close>

record frame =
  name :: var
  vectorized :: bool

text \<open>
  The nested dictionary \<open>node["funsor"]\<close>.  The key \<open>"log_measure"\<close> is read with
  \<open>.get("log_measure", None)\<close>, so a missing key and the value \<open>None\<close> are both \<open>None\<close>
  here.  The key \<open>"value"\<close> is the field \<open>sampled_value\<close>.
\<close>

record 'f site_funsor =
  log_prob :: 'f
  log_measure :: "'f option"
  sampled_value :: 'f
  scale :: 'f

text \<open>
  A site record \<open>node\<close> of a trace.  The key \<open>"type"\<close> is the field \<open>node_type\<close>.  The keys
  \<open>"replay_skipped"\<close> and \<open>"replay_active"\<close> are read with \<open>node.get(key, False)\<close>
  and may be missing.
\<close>

record 'f node =
  node_type :: string
  cond_indep_stack :: "frame list"
  is_observed :: bool
  replay_skipped :: "bool option"
  replay_active :: "bool option"
  funsor :: "'f site_funsor"

text \<open>\<open>d.get(key, default)\<close> on an optional key.\<close>

definition dict_get :: "'a option \<Rightarrow> 'a \<Rightarrow> 'a" where
  "dict_get entry dflt = (case entry of None \<Rightarrow> dflt | Some v \<Rightarrow> v)"

text \<open>
  The items of a trace's node mapping, in order: \<open>tr.nodes.items()\<close>.
\<close>

type_synonym 'f trace = "(var \<times> 'f node) list"

text \<open>
  The dictionary \<open>terms\<close> built by \<open>terms_from_trace\<close>.  Its key \<open>"scale"\<close> is the field
  \<open>terms_scale\<close>.
\<close>

record 'f terms =
  log_factors :: "'f list"
  log_measures :: "'f list"
  terms_scale :: 'f
  plate_vars :: "var set"
  measure_vars :: "var set"

section \<open>\<open>terms_from_trace\<close>\<close>

text \<open>
  The body of the loop of \<open>terms_from_trace\<close> (lines 23 to 44) for one item
  \<open>(site_name, node)\<close>.  It returns the updated \<open>terms\<close> and the site record as the loop
  leaves it: line 44 stores \<open>log_prob * scale\<close> under \<open>node["funsor"]["log_prob"]\<close>.
  In line 34 the operator \<open>-\<close> binds tighter than \<open>|\<close>, so the right-hand side is
  \<open>frozenset(value.inputs) | (frozenset([name]) - terms["plate_vars"])\<close>.
\<close>

definition site_body :: "'f funsor_lib \<Rightarrow> var \<Rightarrow> 'f node \<Rightarrow> 'f terms \<Rightarrow> 'f terms \<times> 'f node" where
  "site_body L site_name node terms =
    (if node_type node \<noteq> ''sample'' then (terms, node)
     else
       let terms = terms\<lparr>plate_vars := plate_vars terms \<union>
                      set (map name (filter vectorized (cond_indep_stack node)))\<rparr>;
           terms = (if is_observed node \<or> \<not> dict_get (replay_skipped node) False
                    then terms\<lparr>log_factors := log_factors terms @ [log_prob (funsor node)]\<rparr>
                    else terms);
           terms = (case log_measure (funsor node) of
                      None \<Rightarrow> terms
                    | Some m \<Rightarrow>
                        terms\<lparr>log_measures := log_measures terms @ [m],
                              measure_vars := measure_vars terms \<union>
                                (inputs L (sampled_value (funsor node)) \<union>
                                 ({site_name} - plate_vars terms))\<rparr>)
       in if dict_get (replay_active node) False \<and>
             inputs L (log_prob (funsor node)) - plate_vars terms - {site_name} \<noteq> {}
          then (terms\<lparr>terms_scale := scale (funsor node)\<rparr>, node)
          else (terms,
                node\<lparr>funsor := (funsor node)\<lparr>log_prob :=
                       mul L (log_prob (funsor node)) (scale (funsor node))\<rparr>\<rparr>))"

text \<open>
  The \<open>for\<close> loop of line 22 over the items, threading \<open>terms\<close> and collecting the site
  records as the loop leaves them.
\<close>

fun terms_loop :: "'f funsor_lib \<Rightarrow> 'f terms \<Rightarrow> 'f trace \<Rightarrow> 'f terms \<times> 'f trace" where
  "terms_loop L terms [] = (terms, [])"
| "terms_loop L terms ((site_name, node) # rest) =
     (case site_body L site_name node terms of
        (terms', node') \<Rightarrow>
          (case terms_loop L terms' rest of
             (terms'', rest') \<Rightarrow> (terms'', (site_name, node') # rest')))"

text \<open>The initial dictionary of lines 20 and 21.\<close>

definition initial_terms :: "'f funsor_lib \<Rightarrow> 'f terms" where
  "initial_terms L =
     \<lparr>log_factors = [], log_measures = [], terms_scale = to_funsor L 1,
      plate_vars = {}, measure_vars = {}\<rparr>"

text \<open>
  \<open>terms_from_trace(tr)\<close>.  The function \<open>prune_subsample_sites\<close> of
  \<open>pyro.poutine.util\<close> is a parameter: it returns the items the loop runs over.  The site
  records of these items are the trace's own records (the pruned trace is a copy of the
  node mapping, not of the records), so the second component of the result is what the
  iterated sites of the caller's trace hold when \<open>terms_from_trace\<close> returns.
\<close>

definition terms_from_trace ::
  "'f funsor_lib \<Rightarrow> ('f trace \<Rightarrow> 'f trace) \<Rightarrow> 'f trace \<Rightarrow> 'f terms \<times> 'f trace" where
  "terms_from_trace L prune_subsample_sites tr =
     terms_loop L (initial_terms L) (prune_subsample_sites tr)"

section \<open>\<open>TraceEnum_ELBO\<close>\<close>

text \<open>\<open>_get_trace\<close> (lines 51 and 52): the only statement is a \<open>raise\<close>.\<close>

datatype exn = ValueError string

definition get_trace :: "'self \<Rightarrow> 'a list \<Rightarrow> (string \<times> 'b) list \<Rightarrow> exn + 'f trace" where
  "get_trace self args kwargs = Inl (ValueError ''shouldn't be here'')"

text \<open>
  The loop of lines 69 to 74, with the two lists \<open>contracted_factors\<close> and
  \<open>uncontracted_factors\<close> as accumulators.
\<close>

fun partition_factors ::
  "'f funsor_lib \<Rightarrow> var set \<Rightarrow> 'f list \<Rightarrow> 'f list \<Rightarrow> 'f list \<Rightarrow> 'f list \<times> 'f list" where
  "partition_factors L model_measure_vars [] contracted_factors uncontracted_factors =
     (contracted_factors, uncontracted_factors)"
| "partition_factors L model_measure_vars (f # fs) contracted_factors uncontracted_factors =
     (if model_measure_vars \<inter> inputs L f \<noteq> {}
      then partition_factors L model_measure_vars fs (contracted_factors @ [f])
             uncontracted_factors
      else partition_factors L model_measure_vars fs contracted_factors
             (uncontracted_factors @ [f]))"

text \<open>Lines 69 to 84: the list \<open>costs\<close> from the two term dictionaries.\<close>

definition costs_of :: "'f funsor_lib \<Rightarrow> 'f terms \<Rightarrow> 'f terms \<Rightarrow> 'f list" where
  "costs_of L guide_terms model_terms =
     (case partition_factors L (measure_vars model_terms) (log_factors model_terms) [] [] of
        (contracted_factors, uncontracted_factors) \<Rightarrow>
          let model_log_factors =
                partial_sum_product L ops_logaddexp ops_add
                  (log_measures model_terms @ contracted_factors)
                  (plate_vars model_terms) (measure_vars model_terms);
              costs = map (\<lambda>f. mul L (terms_scale model_terms) f) model_log_factors;
              costs = costs @ uncontracted_factors;
              costs = costs @ map (\<lambda>f. neg L f) (log_factors guide_terms)
          in costs)"

text \<open>
  The loop of lines 89 to 98 over \<open>costs\<close>, with \<open>elbo\<close> as accumulator; \<open>pv\<close> is the
  local \<open>plate_vars\<close> of line 87.
\<close>

fun elbo_loop :: "'f funsor_lib \<Rightarrow> 'f terms \<Rightarrow> var set \<Rightarrow> 'f \<Rightarrow> 'f list \<Rightarrow> 'f" where
  "elbo_loop L guide_terms pv elbo [] = elbo"
| "elbo_loop L guide_terms pv elbo (cost # costs) =
     (let lp = sum_product L ops_logaddexp ops_add (log_measures guide_terms) pv
                 ((pv \<union> measure_vars guide_terms) - inputs L cost);
          elbo_term = Integrate L lp cost (measure_vars guide_terms \<inter> inputs L cost);
          elbo_term = reduce L ops_add elbo_term (pv \<inter> inputs L cost)
      in elbo_loop L guide_terms pv (add L elbo elbo_term) costs)"

text \<open>
  Lines 63 to 98 of \<open>differentiable_loss\<close>: the expression \<open>elbo\<close> when the loop ends.
  The two traces are the arguments: running the guide and the model under the handlers
  (lines 57 to 60) is outside this module.
\<close>

definition elbo_expr ::
  "'f funsor_lib \<Rightarrow> ('f trace \<Rightarrow> 'f trace) \<Rightarrow> 'f trace \<Rightarrow> 'f trace \<Rightarrow> 'f" where
  "elbo_expr L prune_subsample_sites guide_tr model_tr =
     (let guide_terms = fst (terms_from_trace L prune_subsample_sites guide_tr);
          model_terms = fst (terms_from_trace L prune_subsample_sites model_tr);
          costs = costs_of L guide_terms model_terms;
          pv = plate_vars guide_terms \<union> plate_vars model_terms
      in elbo_loop L guide_terms pv (to_funsor L 0) costs)"

text \<open>Line 102: the value \<open>differentiable_loss\<close> returns.\<close>

definition differentiable_loss ::
  "'f funsor_lib \<Rightarrow> ('f trace \<Rightarrow> 'f trace) \<Rightarrow> 'f trace \<Rightarrow> 'f trace \<Rightarrow> real" where
  "differentiable_loss L prune_subsample_sites guide_tr model_tr =
     - to_data L (apply_optimizer L (elbo_expr L prune_subsample_sites guide_tr model_tr))"

section \<open>Notions used to state the properties\<close>

text \<open>
  The plate variables one item contributes in line 26: the names of the vectorized
  frames of a sample site, and nothing for any other node.
\<close>

definition site_plates :: "var \<times> 'f node \<Rightarrow> var set" where
  "site_plates item =
     (case item of
        (site_name, node) \<Rightarrow>
          if node_type node = ''sample''
          then set (map name (filter vectorized (cond_indep_stack node)))
          else {})"

text \<open>
  The plate variables accumulated when the loop has run line 26 for item \<open>i\<close> of
  \<open>items\<close>, starting from the set \<open>pv\<close>.
\<close>

definition plates_upto :: "var set \<Rightarrow> 'f trace \<Rightarrow> nat \<Rightarrow> var set" where
  "plates_upto pv items i = pv \<union> \<Union> (set (map site_plates (take (Suc i) items)))"

text \<open>The dictionary \<open>terms\<close> when the loop has run for the first \<open>k\<close> items.\<close>

definition terms_after :: "'f funsor_lib \<Rightarrow> 'f trace \<Rightarrow> nat \<Rightarrow> 'f terms" where
  "terms_after L items k = fst (terms_loop L (initial_terms L) (take k items))"

text \<open>A site record whose \<open>log_prob\<close> has been replaced by \<open>log_prob * scale\<close>.\<close>

definition rescaled :: "'f funsor_lib \<Rightarrow> 'f node \<Rightarrow> 'f node" where
  "rescaled L node =
     node\<lparr>funsor := (funsor node)\<lparr>log_prob :=
       mul L (log_prob (funsor node)) (scale (funsor node))\<rparr>\<rparr>"

text \<open>
  The shared-scale condition of line 40 at item \<open>i\<close>: the item is a sample site, its
  replay is active, and its \<open>log_prob\<close> has an input that is neither a plate variable
  accumulated so far nor the site's own name.
\<close>

definition shared_scale_site :: "'f funsor_lib \<Rightarrow> var set \<Rightarrow> 'f trace \<Rightarrow> nat \<Rightarrow> bool" where
  "shared_scale_site L pv items i =
     (case items ! i of
        (site_name, node) \<Rightarrow>
          node_type node = ''sample'' \<and> dict_get (replay_active node) False \<and>
          inputs L (log_prob (funsor node)) - plates_upto pv items i - {site_name} \<noteq> {})"

text \<open>The sites whose \<open>log_prob\<close> line 28 selects.\<close>

definition scored :: "var \<times> 'f node \<Rightarrow> bool" where
  "scored item =
     (case item of
        (site_name, node) \<Rightarrow>
          node_type node = ''sample'' \<and>
          (is_observed node \<or> \<not> dict_get (replay_skipped node) False))"

text \<open>
  The contribution of one cost term as the specification describes it: the guide's
  \<open>log_measures\<close> are sum-product-eliminated with the given plates, the cost is integrated
  against the result over the guide's measure variables among its inputs, and the
  outcome is reduced with addition over the plates among its inputs.
\<close>

definition cost_contribution :: "'f funsor_lib \<Rightarrow> 'f terms \<Rightarrow> var set \<Rightarrow> 'f \<Rightarrow> 'f" where
  "cost_contribution L guide_terms pv c =
     reduce L ops_add
       (Integrate L
          (sum_product L ops_logaddexp ops_add (log_measures guide_terms) pv
             ((pv \<union> measure_vars guide_terms) - inputs L c))
          c (measure_vars guide_terms \<inter> inputs L c))
       (pv \<inter> inputs L c)"

section \<open>A term model of the funsor library, to run the functions\<close>

text \<open>
  Lazy funsor expressions as terms: a named tensor with its inputs, a number, and one
  constructor for each operation of the library.
\<close>

datatype expr =
    Tensor string "var set"
  | Number real
  | Mul expr expr
  | Neg expr
  | Add expr expr
  | SumProduct ops ops "expr list" "var set" "var set"
  | Integral expr expr "var set"
  | Reduce ops expr "var set"

fun expr_inputs :: "expr \<Rightarrow> var set" where
  "expr_inputs (Tensor label vs) = vs"
| "expr_inputs (Number r) = {}"
| "expr_inputs (Mul a b) = expr_inputs a \<union> expr_inputs b"
| "expr_inputs (Neg a) = expr_inputs a"
| "expr_inputs (Add a b) = expr_inputs a \<union> expr_inputs b"
| "expr_inputs (SumProduct s p fs plates eliminate) =
     \<Union> (set (map expr_inputs fs)) - eliminate"
| "expr_inputs (Integral m c vs) = (expr_inputs m \<union> expr_inputs c) - vs"
| "expr_inputs (Reduce opr a vs) = expr_inputs a - vs"

text \<open>
  A valuation of expressions in the reals under which \<open>Add\<close> is addition; \<open>rho\<close> gives
  the value of a named tensor.
\<close>

fun denote :: "(string \<Rightarrow> real) \<Rightarrow> expr \<Rightarrow> real" where
  "denote rho (Tensor label vs) = rho label"
| "denote rho (Number r) = r"
| "denote rho (Mul a b) = denote rho a * denote rho b"
| "denote rho (Neg a) = - denote rho a"
| "denote rho (Add a b) = denote rho a + denote rho b"
| "denote rho (SumProduct s p fs plates eliminate) = sum_list (map (denote rho) fs)"
| "denote rho (Integral m c vs) = denote rho m * denote rho c"
| "denote rho (Reduce opr a vs) = denote rho a"

definition expr_lib :: "expr funsor_lib" where
  "expr_lib =
     \<lparr>inputs = expr_inputs, to_funsor = Number, mul = Mul, neg = Neg, add = Add,
      partial_sum_product = (\<lambda>s p fs plates eliminate. [SumProduct s p fs plates eliminate]),
      sum_product = SumProduct, Integrate = Integral, reduce = Reduce,
      apply_optimizer = (\<lambda>e. e), to_data = denote (\<lambda>label. 1)\<rparr>"

text \<open>
  A guide trace with one latent site \<open>x\<close> inside the vectorized plate \<open>p\<close>,
  enumerated with expansion: its sampled value, its \<open>log_prob\<close> and its
  \<open>log_measure\<close> depend on \<open>x\<close> and on the plate dimension.  A guide is not replayed,
  so the replay keys are missing.
\<close>

definition plate_p :: frame where
  "plate_p = \<lparr>name = ''p'', vectorized = True\<rparr>"

definition guide_site_x :: "expr node" where
  "guide_site_x =
     \<lparr>node_type = ''sample'', cond_indep_stack = [plate_p], is_observed = False,
      replay_skipped = None, replay_active = None,
      funsor = \<lparr>log_prob = Tensor ''q_x'' {''x'', ''p''},
                log_measure = Some (Tensor ''m_x'' {''x'', ''p''}),
                sampled_value = Tensor ''v_x'' {''x'', ''p''},
                scale = Tensor ''s_x'' {}\<rparr>\<rparr>"

definition guide_trace :: "expr trace" where
  "guide_trace = [(''x'', guide_site_x)]"

text \<open>
  A model trace replayed against that guide, all sites inside the plate \<open>p\<close>: a
  parameter node, the replayed site \<open>x\<close>, a site \<open>z\<close> enumerated in the model only
  (skipped by the replay, with a \<open>log_measure\<close>), and two observed sites \<open>y\<close> and \<open>w\<close>
  whose \<open>log_prob\<close> depends on \<open>z\<close>, with different scales.
\<close>

definition model_site ::
  "bool \<Rightarrow> bool \<Rightarrow> string \<Rightarrow> var set \<Rightarrow> expr option \<Rightarrow> string \<Rightarrow> expr node" where
  "model_site obs skipped lp lp_inputs lm sc =
     \<lparr>node_type = ''sample'', cond_indep_stack = [plate_p], is_observed = obs,
      replay_skipped = Some skipped, replay_active = Some True,
      funsor = \<lparr>log_prob = Tensor lp lp_inputs, log_measure = lm,
                sampled_value = Tensor ''v'' (if lm = None then {} else {''z''}),
                scale = Tensor sc {}\<rparr>\<rparr>"

definition model_trace :: "expr trace" where
  "model_trace =
     [(''theta'', (model_site False False ''p_theta'' {} None ''s_theta'')
                    \<lparr>node_type := ''param''\<rparr>),
      (''x'', model_site False False ''p_x'' {''x'', ''p''} None ''s_x''),
      (''z'', model_site False True ''p_z'' {''z''} (Some (Tensor ''m_z'' {''z''})) ''s_z''),
      (''y'', model_site True False ''p_y'' {''z'', ''p''} None ''s_y''),
      (''w'', model_site True False ''p_w'' {''z'', ''x''} None ''s_w'')]"

section \<open>Auxiliary lemmas\<close>

subsection \<open>One pass of the loop body\<close>

lemma site_body_plate_vars:
  "plate_vars (fst (site_body L n node t)) = plate_vars t \<union> site_plates (n, node)"
  by (simp add: site_body_def site_plates_def Let_def split: option.splits)

lemma site_body_log_factors:
  "log_factors (fst (site_body L n node t)) =
     log_factors t @ (if scored (n, node) then [log_prob (funsor node)] else [])"
  by (simp add: site_body_def scored_def Let_def split: option.splits)

lemma site_body_terms_scale:
  "terms_scale (fst (site_body L n node t)) =
     (if node_type node = ''sample'' \<and> dict_get (replay_active node) False \<and>
         inputs L (log_prob (funsor node)) - (plate_vars t \<union> site_plates (n, node)) - {n} \<noteq> {}
      then scale (funsor node) else terms_scale t)"
  by (auto simp add: site_body_def site_plates_def Let_def split: option.splits)

lemma site_body_node:
  "snd (site_body L n node t) =
     (if node_type node = ''sample'' \<and>
         \<not> (dict_get (replay_active node) False \<and>
            inputs L (log_prob (funsor node)) - (plate_vars t \<union> site_plates (n, node)) - {n} \<noteq> {})
      then rescaled L node else node)"
  by (auto simp add: site_body_def site_plates_def rescaled_def Let_def split: option.splits)

subsection \<open>The loop over the items\<close>

lemma fst_terms_loop_Cons:
  "fst (terms_loop L t ((n, node) # rest)) = fst (terms_loop L (fst (site_body L n node t)) rest)"
  by (simp split: prod.splits)

lemma snd_terms_loop_Cons:
  "snd (terms_loop L t ((n, node) # rest)) =
     (n, snd (site_body L n node t)) # snd (terms_loop L (fst (site_body L n node t)) rest)"
  by (simp split: prod.splits)

lemma fst_terms_loop_append:
  "fst (terms_loop L t (xs @ ys)) = fst (terms_loop L (fst (terms_loop L t xs)) ys)"
proof (induction xs arbitrary: t)
  case Nil
  show ?case by simp
next
  case (Cons x xs)
  obtain n node where x: "x = (n, node)" by (cases x)
  show ?case unfolding x append_Cons fst_terms_loop_Cons Cons.IH ..
qed

lemma snd_terms_loop_append:
  "snd (terms_loop L t (xs @ ys)) =
     snd (terms_loop L t xs) @ snd (terms_loop L (fst (terms_loop L t xs)) ys)"
proof (induction xs arbitrary: t)
  case Nil
  show ?case by simp
next
  case (Cons x xs)
  obtain n node where x: "x = (n, node)" by (cases x)
  show ?case
    unfolding x append_Cons fst_terms_loop_Cons snd_terms_loop_Cons Cons.IH by simp
qed

lemma length_terms_loop: "length (snd (terms_loop L t xs)) = length xs"
proof (induction xs arbitrary: t)
  case Nil
  show ?case by simp
next
  case (Cons x xs)
  obtain n node where x: "x = (n, node)" by (cases x)
  show ?case unfolding x snd_terms_loop_Cons using Cons.IH by simp
qed

lemma terms_loop_plate_vars:
  "plate_vars (fst (terms_loop L t xs)) = plate_vars t \<union> \<Union> (set (map site_plates xs))"
proof (induction xs arbitrary: t)
  case Nil
  show ?case by simp
next
  case (Cons x xs)
  obtain n node where x: "x = (n, node)" by (cases x)
  show ?case unfolding x fst_terms_loop_Cons Cons.IH site_body_plate_vars by auto
qed

lemma terms_loop_log_factors:
  "log_factors (fst (terms_loop L t items)) =
     log_factors t @ map (\<lambda>item. log_prob (funsor (snd item))) (filter scored items)"
proof (induction items arbitrary: t)
  case Nil
  show ?case by simp
next
  case (Cons item items)
  obtain n node where item: "item = (n, node)" by (cases item)
  show ?case
    unfolding item fst_terms_loop_Cons Cons.IH site_body_log_factors by simp
qed

subsection \<open>The state of the loop at item \<open>i\<close>\<close>

lemma plates_upto_step:
  assumes "i < length items" and "pv = plate_vars t"
  shows "plates_upto pv items i =
           plate_vars (fst (terms_loop L t (take i items))) \<union> site_plates (items ! i)"
  using assms
  by (auto simp add: plates_upto_def terms_loop_plate_vars take_Suc_conv_app_nth)

lemma terms_loop_take_Suc:
  assumes "i < length items" and "items ! i = (n, node)"
  shows "fst (terms_loop L t (take (Suc i) items)) =
           fst (site_body L n node (fst (terms_loop L t (take i items))))"
  using assms
  by (simp del: terms_loop.simps
        add: terms_loop.simps(1) take_Suc_conv_app_nth fst_terms_loop_append
          fst_terms_loop_Cons)

lemma terms_loop_nth:
  assumes "i < length items" and "items ! i = (n, node)"
  shows "snd (terms_loop L t items) ! i =
           (n, snd (site_body L n node (fst (terms_loop L t (take i items)))))"
proof -
  have split: "items = take i items @ (n, node) # drop (Suc i) items"
    using assms by (metis id_take_nth_drop)
  have len: "length (snd (terms_loop L t (take i items))) = i"
    using assms(1) by (simp add: length_terms_loop)
  have "snd (terms_loop L t items) =
          snd (terms_loop L t (take i items)) @
          snd (terms_loop L (fst (terms_loop L t (take i items)))
                 ((n, node) # drop (Suc i) items))"
    using split snd_terms_loop_append by metis
  then show ?thesis using len
    by (simp del: terms_loop.simps add: snd_terms_loop_Cons nth_append)
qed

lemma shared_scale_site_unfold:
  assumes "i < length items" and "items ! i = (n, node)"
  shows "shared_scale_site L (plate_vars t) items i =
           (node_type node = ''sample'' \<and> dict_get (replay_active node) False \<and>
            inputs L (log_prob (funsor node)) -
              (plate_vars (fst (terms_loop L t (take i items))) \<union> site_plates (n, node)) -
              {n} \<noteq> {})"
  using assms plates_upto_step [OF assms(1) refl, of t L]
  by (simp add: shared_scale_site_def)

lemma terms_scale_take_Suc:
  assumes "i < length items"
  shows "terms_scale (fst (terms_loop L t (take (Suc i) items))) =
           (if shared_scale_site L (plate_vars t) items i
            then scale (funsor (snd (items ! i)))
            else terms_scale (fst (terms_loop L t (take i items))))"
proof -
  obtain n node where it: "items ! i = (n, node)" by (cases "items ! i")
  show ?thesis
    unfolding terms_loop_take_Suc [OF assms it] site_body_terms_scale
      shared_scale_site_unfold [OF assms it]
    by (simp add: it)
qed

lemma node_after_loop:
  assumes "i < length items"
  shows "snd (terms_loop L t items) ! i =
           (if node_type (snd (items ! i)) = ''sample'' \<and>
               \<not> shared_scale_site L (plate_vars t) items i
            then (fst (items ! i), rescaled L (snd (items ! i))) else items ! i)"
proof -
  obtain n node where it: "items ! i = (n, node)" by (cases "items ! i")
  show ?thesis
    unfolding terms_loop_nth [OF assms it] site_body_node
      shared_scale_site_unfold [OF assms it]
    by (auto simp add: it)
qed

lemma terms_scale_none:
  assumes "k \<le> length items" and "\<forall>j<k. \<not> shared_scale_site L (plate_vars t) items j"
  shows "terms_scale (fst (terms_loop L t (take k items))) = terms_scale t"
  using assms
proof (induction k)
  case 0
  show ?case by simp
next
  case (Suc k)
  then show ?case by (simp add: terms_scale_take_Suc)
qed

lemma terms_scale_last:
  assumes "i < length items" and "shared_scale_site L (plate_vars t) items i"
    and "Suc i + d \<le> length items"
    and "\<forall>j. i < j \<and> j < Suc i + d \<longrightarrow> \<not> shared_scale_site L (plate_vars t) items j"
  shows "terms_scale (fst (terms_loop L t (take (Suc i + d) items))) =
           scale (funsor (snd (items ! i)))"
  using assms
proof (induction d)
  case 0
  then show ?case by (simp add: terms_scale_take_Suc)
next
  case (Suc d)
  have "Suc i + d < length items" using Suc.prems(3) by simp
  moreover have "\<not> shared_scale_site L (plate_vars t) items (Suc i + d)"
    using Suc.prems(4) by simp
  moreover have "terms_scale (fst (terms_loop L t (take (Suc i + d) items))) =
                   scale (funsor (snd (items ! i)))"
    using Suc by simp
  ultimately show ?case
    using terms_scale_take_Suc [of "Suc i + d" items L t] by simp
qed

subsection \<open>The two loops of \<open>differentiable_loss\<close>\<close>

lemma partition_factors_filter:
  "partition_factors L mv fs cs us =
     (cs @ filter (\<lambda>f. mv \<inter> inputs L f \<noteq> {}) fs, us @ filter (\<lambda>f. mv \<inter> inputs L f = {}) fs)"
  by (induction fs arbitrary: cs us) simp_all

lemma elbo_loop_foldl:
  "elbo_loop L gt pv elbo costs = foldl (add L) elbo (map (cost_contribution L gt pv) costs)"
  by (induction costs arbitrary: elbo) (simp_all add: cost_contribution_def)

lemma foldl_add_denote:
  assumes "\<And>a b. ev (add L a b) = ev a + (ev b :: real)"
  shows "ev (foldl (add L) e xs) = ev e + sum_list (map ev xs)"
  using assms by (induction xs arbitrary: e) (simp_all add: add.assoc)

subsection \<open>The example traces\<close>

lemmas example_defs = guide_trace_def guide_site_x_def model_trace_def model_site_def
  plate_p_def expr_lib_def

lemma guide_terms_value:
  "fst (terms_from_trace expr_lib (\<lambda>tr. tr) guide_trace) =
     \<lparr>log_factors = [Tensor ''q_x'' {''x'', ''p''}],
      log_measures = [Tensor ''m_x'' {''x'', ''p''}],
      terms_scale = Number 1, plate_vars = {''p''}, measure_vars = {''x'', ''p''}\<rparr>"
  by (auto simp add: terms_from_trace_def initial_terms_def site_body_def dict_get_def
        Let_def example_defs)

lemma model_terms_value:
  "fst (terms_from_trace expr_lib (\<lambda>tr. tr) model_trace) =
     \<lparr>log_factors = [Tensor ''p_x'' {''x'', ''p''}, Tensor ''p_y'' {''z'', ''p''},
                     Tensor ''p_w'' {''z'', ''x''}],
      log_measures = [Tensor ''m_z'' {''z''}],
      terms_scale = Tensor ''s_w'' {}, plate_vars = {''p''}, measure_vars = {''z''}\<rparr>"
  by (auto simp add: terms_from_trace_def initial_terms_def site_body_def dict_get_def
        Let_def example_defs)

lemma model_trace_shared:
  "\<not> shared_scale_site expr_lib {} model_trace 0"
  "\<not> shared_scale_site expr_lib {} model_trace 1"
  "\<not> shared_scale_site expr_lib {} model_trace 2"
  "shared_scale_site expr_lib {} model_trace 3"
  "shared_scale_site expr_lib {} model_trace 4"
  by (auto simp add: shared_scale_site_def plates_upto_def site_plates_def dict_get_def
        eval_nat_numeral example_defs)

lemma guide_trace_shared: "\<not> shared_scale_site expr_lib {} guide_trace 0"
  by (simp add: shared_scale_site_def dict_get_def guide_trace_def guide_site_x_def)

section \<open>Properties\<close>

text \<open>
  C1.  For a site that carries a \<open>log_measure\<close>, the specification has \<open>measure_vars\<close> grow by
  (inputs of the sampled value \<open>\<union>\<close> {site name}) minus \<open>plate_vars\<close>.  On the guide
  trace with the single site \<open>x\<close> in the plate \<open>p\<close>, whose sampled value has the inputs
  \<open>x\<close> and \<open>p\<close>, the \<open>log_measure\<close> is appended, and that set is \<open>{x}\<close>; the code
  returns \<open>measure_vars = {x, p}\<close>, since line 34 subtracts \<open>plate_vars\<close> from the site
  name only.
\<close>

theorem measure_vars_keep_plate_input:
  "measure_vars (fst (terms_from_trace expr_lib (\<lambda>tr. tr) guide_trace)) = {''x'', ''p''} \<and>
   log_measures (fst (terms_from_trace expr_lib (\<lambda>tr. tr) guide_trace)) =
     [Tensor ''m_x'' {''x'', ''p''}] \<and>
   (inputs expr_lib (sampled_value (funsor guide_site_x)) \<union> {''x''}) - {''p''} = {''x''} \<and>
   {''x''} \<noteq> {''x'', ''p''}"
  unfolding guide_terms_value by (auto simp add: guide_site_x_def expr_lib_def)

text \<open>
  C2.  The specification has \<open>plate_vars\<close> and \<open>measure_vars\<close> disjoint in every term-set that
  \<open>terms_from_trace\<close> returns.  On the same guide trace the two sets share the plate
  variable \<open>p\<close>.
\<close>

theorem plate_and_measure_vars_overlap:
  "plate_vars (fst (terms_from_trace expr_lib (\<lambda>tr. tr) guide_trace)) \<inter>
   measure_vars (fst (terms_from_trace expr_lib (\<lambda>tr. tr) guide_trace)) = {''p''}"
  by (simp add: guide_terms_value)

text \<open>
  C3.  The expression \<open>elbo\<close> that \<open>differentiable_loss\<close> builds is the sum, accumulated
  with \<open>+\<close> from \<open>to_funsor(0)\<close> in the order of the cost list, of one contribution
  per cost term \<open>c\<close>: the guide's \<open>log_measures\<close> sum-product-eliminated with plates the
  union \<open>pv\<close> of the guide's and the model's \<open>plate_vars\<close> and eliminate set
  \<open>(pv \<union> guide measure_vars) - inputs c\<close>, then \<open>c\<close> integrated against it over
  \<open>guide measure_vars \<inter> inputs c\<close>, then the result reduced with \<open>ops.add\<close> over
  \<open>pv \<inter> inputs c\<close> (the three steps are the definition \<open>cost_contribution\<close>).
\<close>

theorem elbo_expr_contributions:
  "elbo_expr L prune guide_tr model_tr =
     (let guide_terms = fst (terms_from_trace L prune guide_tr);
          model_terms = fst (terms_from_trace L prune model_tr);
          pv = plate_vars guide_terms \<union> plate_vars model_terms
      in foldl (add L) (to_funsor L 0)
           (map (cost_contribution L guide_terms pv) (costs_of L guide_terms model_terms)))"
  by (simp add: elbo_expr_def elbo_loop_foldl Let_def)

text \<open>The expression built for the example guide and model traces.\<close>

theorem elbo_expr_contributions_witness:
  "elbo_expr expr_lib (\<lambda>tr. tr) guide_trace model_trace =
     Add (Add (Add (Number 0)
       (Reduce ops_add
          (Integral
             (SumProduct ops_logaddexp ops_add [Tensor ''m_x'' {''x'', ''p''}] {''p''} {})
             (Mul (Tensor ''s_w'' {})
                (SumProduct ops_logaddexp ops_add
                   [Tensor ''m_z'' {''z''}, Tensor ''p_y'' {''z'', ''p''},
                    Tensor ''p_w'' {''z'', ''x''}]
                   {''p''} {''z''}))
             {''x'', ''p''})
          {''p''}))
       (Reduce ops_add
          (Integral
             (SumProduct ops_logaddexp ops_add [Tensor ''m_x'' {''x'', ''p''}] {''p''} {})
             (Tensor ''p_x'' {''x'', ''p''}) {''x'', ''p''})
          {''p''}))
       (Reduce ops_add
          (Integral
             (SumProduct ops_logaddexp ops_add [Tensor ''m_x'' {''x'', ''p''}] {''p''} {})
             (Neg (Tensor ''q_x'' {''x'', ''p''})) {''x'', ''p''})
          {''p''})"
proof -
  have costs:
    "costs_of expr_lib
       \<lparr>log_factors = [Tensor ''q_x'' {''x'', ''p''}],
        log_measures = [Tensor ''m_x'' {''x'', ''p''}],
        terms_scale = Number 1, plate_vars = {''p''}, measure_vars = {''x'', ''p''}\<rparr>
       \<lparr>log_factors = [Tensor ''p_x'' {''x'', ''p''}, Tensor ''p_y'' {''z'', ''p''},
                       Tensor ''p_w'' {''z'', ''x''}],
        log_measures = [Tensor ''m_z'' {''z''}],
        terms_scale = Tensor ''s_w'' {}, plate_vars = {''p''}, measure_vars = {''z''}\<rparr> =
     [Mul (Tensor ''s_w'' {})
        (SumProduct ops_logaddexp ops_add
           [Tensor ''m_z'' {''z''}, Tensor ''p_y'' {''z'', ''p''}, Tensor ''p_w'' {''z'', ''x''}]
           {''p''} {''z''}),
      Tensor ''p_x'' {''x'', ''p''},
      Neg (Tensor ''q_x'' {''x'', ''p''})]"
    by (simp add: costs_of_def expr_lib_def)
  show ?thesis
    using elbo_expr_contributions [of expr_lib "\<lambda>tr. tr" guide_trace model_trace]
    unfolding guide_terms_value model_terms_value Let_def costs
    by (auto simp add: cost_contribution_def expr_lib_def)
qed

text \<open>
  C4.  The cost list is, in this order: the model's shared scale times each factor that
  \<open>partial_sum_product\<close> returns for the model's \<open>log_measures\<close> followed by the
  contracted factors; then the uncontracted factors; then the negation of each guide
  \<open>log_factor\<close>.  The contracted factors are the model \<open>log_factors\<close> whose inputs meet
  the model's \<open>measure_vars\<close>, the uncontracted ones are the others, each kept in the
  order of \<open>log_factors\<close>.
\<close>

theorem costs_of_order:
  "costs_of L guide_terms model_terms =
     map (mul L (terms_scale model_terms))
       (partial_sum_product L ops_logaddexp ops_add
          (log_measures model_terms @
           filter (\<lambda>f. measure_vars model_terms \<inter> inputs L f \<noteq> {}) (log_factors model_terms))
          (plate_vars model_terms) (measure_vars model_terms)) @
     filter (\<lambda>f. measure_vars model_terms \<inter> inputs L f = {}) (log_factors model_terms) @
     map (neg L) (log_factors guide_terms)"
  by (simp add: costs_of_def partition_factors_filter)

text \<open>The cost list of the example traces: \<open>p_y\<close> and \<open>p_w\<close> are contracted, \<open>p_x\<close> is not.\<close>

theorem costs_of_order_witness:
  "costs_of expr_lib (fst (terms_from_trace expr_lib (\<lambda>tr. tr) guide_trace))
     (fst (terms_from_trace expr_lib (\<lambda>tr. tr) model_trace)) =
   [Mul (Tensor ''s_w'' {})
      (SumProduct ops_logaddexp ops_add
         [Tensor ''m_z'' {''z''}, Tensor ''p_y'' {''z'', ''p''}, Tensor ''p_w'' {''z'', ''x''}]
         {''p''} {''z''}),
    Tensor ''p_x'' {''x'', ''p''},
    Neg (Tensor ''q_x'' {''x'', ''p''})]"
  using costs_of_order [of expr_lib "fst (terms_from_trace expr_lib (\<lambda>tr. tr) guide_trace)"
      "fst (terms_from_trace expr_lib (\<lambda>tr. tr) model_trace)"]
  unfolding guide_terms_value model_terms_value
  by (simp add: expr_lib_def)

text \<open>
  C5.  For the sample site at position \<open>i\<close> of the iterated items, exactly one of two
  things happens.  If its replay is active and its \<open>log_prob\<close> has an input outside the
  plate variables accumulated so far and other than the site's name, then the
  dictionary's scale after this item is the site's scale and the site record is left as
  it was.  Otherwise (also when the replay is active and no such input is left) the
  dictionary's scale is what it was before this item, and the site's \<open>log_prob\<close> is
  replaced by \<open>log_prob * scale\<close>.
\<close>

theorem site_scale_cases:
  assumes "i < length (prune tr)" and "prune tr ! i = (site_name, node)"
    and "node_type node = ''sample''"
  shows "if dict_get (replay_active node) False \<and>
            inputs L (log_prob (funsor node)) - plates_upto {} (prune tr) i - {site_name} \<noteq> {}
         then terms_scale (terms_after L (prune tr) (Suc i)) = scale (funsor node) \<and>
              snd (terms_from_trace L prune tr) ! i = (site_name, node)
         else terms_scale (terms_after L (prune tr) (Suc i)) =
                terms_scale (terms_after L (prune tr) i) \<and>
              snd (terms_from_trace L prune tr) ! i = (site_name, rescaled L node)"
proof -
  have pv: "plate_vars (initial_terms L) = {}"
    by (simp add: initial_terms_def)
  have cond: "shared_scale_site L {} (prune tr) i =
      (dict_get (replay_active node) False \<and>
       inputs L (log_prob (funsor node)) - plates_upto {} (prune tr) i - {site_name} \<noteq> {})"
    using assms(2,3) by (simp add: shared_scale_site_def)
  have sc: "terms_scale (terms_after L (prune tr) (Suc i)) =
      (if shared_scale_site L {} (prune tr) i then scale (funsor node)
       else terms_scale (terms_after L (prune tr) i))"
    using terms_scale_take_Suc [OF assms(1), of L "initial_terms L"] assms(2)
    by (simp add: terms_after_def pv)
  have nd: "snd (terms_from_trace L prune tr) ! i =
      (if shared_scale_site L {} (prune tr) i then (site_name, node)
       else (site_name, rescaled L node))"
    using node_after_loop [OF assms(1), of L "initial_terms L"] assms(2,3)
    by (simp add: terms_from_trace_def pv)
  show ?thesis
    using sc nd unfolding cond by simp
qed

text \<open>
  Both cases on the example model trace: the site \<open>y\<close> (position 3) records its scale,
  the replayed site \<open>x\<close> (position 1) has no input left and is rescaled.
\<close>

theorem site_scale_cases_witness:
  "terms_scale (terms_after expr_lib model_trace (Suc 3)) = Tensor ''s_y'' {} \<and>
   snd (terms_from_trace expr_lib (\<lambda>tr. tr) model_trace) ! 3 =
     (''y'', model_site True False ''p_y'' {''z'', ''p''} None ''s_y'') \<and>
   terms_scale (terms_after expr_lib model_trace (Suc 1)) =
     terms_scale (terms_after expr_lib model_trace 1) \<and>
   snd (terms_from_trace expr_lib (\<lambda>tr. tr) model_trace) ! 1 =
     (''x'', rescaled expr_lib (model_site False False ''p_x'' {''x'', ''p''} None ''s_x''))"
proof -
  let ?y = "model_site True False ''p_y'' {''z'', ''p''} None ''s_y''"
  let ?x = "model_site False False ''p_x'' {''x'', ''p''} None ''s_x''"
  have y: "3 < length model_trace" "model_trace ! 3 = (''y'', ?y)" "node_type ?y = ''sample''"
    by (simp_all add: model_trace_def model_site_def)
  have x: "1 < length model_trace" "model_trace ! 1 = (''x'', ?x)" "node_type ?x = ''sample''"
    by (simp_all add: model_trace_def model_site_def)
  have cy: "dict_get (replay_active ?y) False \<and>
      inputs expr_lib (log_prob (funsor ?y)) - plates_upto {} model_trace 3 - {''y''} \<noteq> {}"
    using model_trace_shared(4) y(2) by (simp add: shared_scale_site_def)
  have cx: "\<not> (dict_get (replay_active ?x) False \<and>
      inputs expr_lib (log_prob (funsor ?x)) - plates_upto {} model_trace 1 - {''x''} \<noteq> {})"
    using model_trace_shared(2) x(2,3) by (simp add: shared_scale_site_def)
  have "terms_scale (terms_after expr_lib model_trace (Suc 3)) = scale (funsor ?y) \<and>
        snd (terms_from_trace expr_lib (\<lambda>tr. tr) model_trace) ! 3 = (''y'', ?y)"
    using site_scale_cases [where prune = "\<lambda>tr. tr" and tr = model_trace and L = expr_lib,
        OF y] cy by (simp only: simp_thms if_True if_False)
  moreover have "terms_scale (terms_after expr_lib model_trace (Suc 1)) =
          terms_scale (terms_after expr_lib model_trace 1) \<and>
        snd (terms_from_trace expr_lib (\<lambda>tr. tr) model_trace) ! 1 =
          (''x'', rescaled expr_lib ?x)"
    using site_scale_cases [where prune = "\<lambda>tr. tr" and tr = model_trace and L = expr_lib,
        OF x] cx by (simp only: simp_thms if_True if_False)
  ultimately show ?thesis
    by (simp add: model_site_def)
qed

text \<open>
  C6.  If no iterated item meets the shared-scale condition, the scale of the returned
  term-set is \<open>to_funsor(1.)\<close>.  If item \<open>i\<close> meets it and no later item does, the scale
  is the scale of item \<open>i\<close>, whatever the scales of the earlier items that meet it: no
  check compares them and nothing is raised.
\<close>

theorem shared_scale_last_wins:
  "((\<forall>i<length (prune tr). \<not> shared_scale_site L {} (prune tr) i) \<longrightarrow>
      terms_scale (fst (terms_from_trace L prune tr)) = to_funsor L 1) \<and>
   (\<forall>i<length (prune tr).
      shared_scale_site L {} (prune tr) i \<and>
      (\<forall>j. i < j \<and> j < length (prune tr) \<longrightarrow> \<not> shared_scale_site L {} (prune tr) j) \<longrightarrow>
      terms_scale (fst (terms_from_trace L prune tr)) = scale (funsor (snd (prune tr ! i))))"
proof (intro conjI impI allI)
  have pv: "plate_vars (initial_terms L) = {}"
    by (simp add: initial_terms_def)
  {
    assume none: "\<forall>i<length (prune tr). \<not> shared_scale_site L {} (prune tr) i"
    show "terms_scale (fst (terms_from_trace L prune tr)) = to_funsor L 1"
      using terms_scale_none [of "length (prune tr)" "prune tr" L "initial_terms L"] none
      by (simp add: terms_from_trace_def pv) (simp add: initial_terms_def)
  }
  {
    fix i
    assume i: "i < length (prune tr)"
      and last: "shared_scale_site L {} (prune tr) i \<and>
        (\<forall>j. i < j \<and> j < length (prune tr) \<longrightarrow> \<not> shared_scale_site L {} (prune tr) j)"
    define d where "d = length (prune tr) - Suc i"
    have len: "Suc i + d = length (prune tr)"
      using i by (simp add: d_def)
    have "terms_scale (fst (terms_loop L (initial_terms L) (take (Suc i + d) (prune tr)))) =
            scale (funsor (snd (prune tr ! i)))"
      using i last len
      by (intro terms_scale_last) (simp_all add: pv)
    moreover have "take (Suc i + d) (prune tr) = prune tr"
      using len by simp
    ultimately show "terms_scale (fst (terms_from_trace L prune tr)) =
                 scale (funsor (snd (prune tr ! i)))"
      unfolding terms_from_trace_def by simp

  }
qed

text \<open>
  On the example model trace the sites \<open>y\<close> and \<open>w\<close> both meet the condition with the
  different scales \<open>s_y\<close> and \<open>s_w\<close>, and the later one wins; no item of the guide
  trace meets it.
\<close>

theorem shared_scale_last_wins_witness:
  "terms_scale (fst (terms_from_trace expr_lib (\<lambda>tr. tr) model_trace)) = Tensor ''s_w'' {} \<and>
   scale (funsor (snd (model_trace ! 3))) = Tensor ''s_y'' {} \<and>
   terms_scale (fst (terms_from_trace expr_lib (\<lambda>tr. tr) guide_trace)) = Number 1"
proof -
  have len: "length model_trace = 5"
    by (simp add: model_trace_def)
  have later: "\<forall>j. 4 < j \<and> j < length model_trace \<longrightarrow> \<not> shared_scale_site expr_lib {} model_trace j"
    using len by auto
  have "terms_scale (fst (terms_from_trace expr_lib (\<lambda>tr. tr) model_trace)) =
          scale (funsor (snd (model_trace ! 4)))"
    using shared_scale_last_wins [where prune = "\<lambda>tr. tr" and tr = model_trace and L = expr_lib]
      model_trace_shared(5) later len by simp
  moreover have "\<forall>i<length guide_trace. \<not> shared_scale_site expr_lib {} guide_trace i"
    using guide_trace_shared by (simp add: guide_trace_def)
  then have "terms_scale (fst (terms_from_trace expr_lib (\<lambda>tr. tr) guide_trace)) =
          to_funsor expr_lib 1"
    using shared_scale_last_wins [where prune = "\<lambda>tr. tr" and tr = guide_trace and L = expr_lib]
    by blast
  ultimately show ?thesis
    by (simp add: model_trace_def model_site_def expr_lib_def)
qed

text \<open>
  C7.  The specification has every field of every site record unchanged when
  \<open>terms_from_trace\<close> returns.  On the example guide trace the \<open>log_prob\<close> of the site
  \<open>x\<close> differs afterwards: line 44 has stored \<open>log_prob * scale\<close> in the site record.
\<close>

theorem trace_not_read_only:
  "log_prob (funsor (snd (snd (terms_from_trace expr_lib (\<lambda>tr. tr) guide_trace) ! 0))) \<noteq>
   log_prob (funsor (snd (guide_trace ! 0)))"
  by (simp add: terms_from_trace_def initial_terms_def site_body_def dict_get_def Let_def
        example_defs)

text \<open>
  C7, as amended.  \<open>terms_from_trace\<close> keeps the number, order and names of the iterated
  items and changes no field of a site record except \<open>log_prob\<close>: the record of a sample
  site that does not meet the shared-scale condition has its \<open>log_prob\<close> replaced by
  \<open>log_prob * scale\<close>, and every other record (a node that is no sample site, or a
  sample site that meets the condition) is unchanged.
\<close>

theorem site_records_after:
  "length (snd (terms_from_trace L prune tr)) = length (prune tr) \<and>
   (\<forall>i<length (prune tr).
      snd (terms_from_trace L prune tr) ! i =
        (if node_type (snd (prune tr ! i)) = ''sample'' \<and> \<not> shared_scale_site L {} (prune tr) i
         then (fst (prune tr ! i), rescaled L (snd (prune tr ! i)))
         else prune tr ! i))"
proof -
  have pv: "plate_vars (initial_terms L) = {}"
    by (simp add: initial_terms_def)
  show ?thesis
    using node_after_loop [of _ "prune tr" L "initial_terms L"]
    by (simp add: terms_from_trace_def length_terms_loop pv)
qed

text \<open>
  On the examples: the guide site \<open>x\<close> is rescaled, the parameter node and the site \<open>w\<close>
  of the model trace are unchanged.
\<close>

theorem site_records_after_witness:
  "length (snd (terms_from_trace expr_lib (\<lambda>tr. tr) guide_trace)) = 1 \<and>
   snd (terms_from_trace expr_lib (\<lambda>tr. tr) guide_trace) ! 0 =
     (''x'', rescaled expr_lib guide_site_x) \<and>
   snd (terms_from_trace expr_lib (\<lambda>tr. tr) model_trace) ! 0 = model_trace ! 0 \<and>
   snd (terms_from_trace expr_lib (\<lambda>tr. tr) model_trace) ! 4 = model_trace ! 4"
proof -
  have g: "length guide_trace = 1" "guide_trace ! 0 = (''x'', guide_site_x)"
    "node_type guide_site_x = ''sample''"
    by (simp_all add: guide_trace_def guide_site_x_def)
  have m: "length model_trace = 5" "node_type (snd (model_trace ! 0)) \<noteq> ''sample''"
    by (simp_all add: model_trace_def model_site_def)
  show ?thesis
    using site_records_after [where prune = "\<lambda>tr. tr" and tr = guide_trace and L = expr_lib]
      site_records_after [where prune = "\<lambda>tr. tr" and tr = model_trace and L = expr_lib]
      g m guide_trace_shared model_trace_shared(5)
    by simp
qed

text \<open>
  C8.  The \<open>log_factors\<close> of the returned term-set are exactly the \<open>log_prob\<close> factors
  of the iterated sample sites that are observed or not skipped by the replay
  (\<open>scored\<close>), in trace order; a sample site that is unobserved and replay-skipped, and a
  node that is no sample site, contribute nothing.
\<close>

theorem log_factors_scored:
  "log_factors (fst (terms_from_trace L prune tr)) =
     map (\<lambda>item. log_prob (funsor (snd item))) (filter scored (prune tr))"
  by (simp add: terms_from_trace_def terms_loop_log_factors initial_terms_def)

text \<open>
  On the example model trace: the parameter node and the replay-skipped site \<open>z\<close>
  contribute nothing, the sites \<open>x\<close>, \<open>y\<close> and \<open>w\<close> contribute their \<open>log_prob\<close>.
\<close>

theorem log_factors_scored_witness:
  "log_factors (fst (terms_from_trace expr_lib (\<lambda>tr. tr) model_trace)) =
     [Tensor ''p_x'' {''x'', ''p''}, Tensor ''p_y'' {''z'', ''p''}, Tensor ''p_w'' {''z'', ''x''}] \<and>
   \<not> scored (model_trace ! 0) \<and> scored (model_trace ! 1) \<and> \<not> scored (model_trace ! 2) \<and>
   scored (model_trace ! 3) \<and> scored (model_trace ! 4)"
  using log_factors_scored [of expr_lib "\<lambda>tr. tr" model_trace]
  by (simp add: scored_def dict_get_def model_trace_def model_site_def)

text \<open>
  C9.  Calling \<open>_get_trace\<close> raises at once, whatever the arguments: the result is the
  \<open>ValueError\<close> for every \<open>self\<close>, every positional argument list and every keyword
  argument list, and it is never a trace.
\<close>

theorem get_trace_always_raises:
  "get_trace self args kwargs = Inl (ValueError ''shouldn't be here'') \<and>
   (\<forall>t. get_trace self args kwargs \<noteq> Inr t)"
  by (simp add: get_trace_def)

text \<open>
  C10.  Over exact arithmetic, that is when the evaluation of the lazy expression turns
  the funsor \<open>+\<close> into addition of real numbers, the number obtained from the
  accumulation loop is the same for a list of cost terms and for every permutation of
  it.
\<close>

theorem elbo_loop_permutation:
  assumes "mset costs = mset costs'"
    and "\<forall>a b. to_data L (apply_optimizer L (add L a b)) =
                to_data L (apply_optimizer L a) + to_data L (apply_optimizer L b)"
  shows "- to_data L (apply_optimizer L (elbo_loop L guide_terms pv elbo costs)) =
         - to_data L (apply_optimizer L (elbo_loop L guide_terms pv elbo costs'))"
proof -
  let ?ev = "\<lambda>f. to_data L (apply_optimizer L f)"
  let ?c = "\<lambda>c. ?ev (cost_contribution L guide_terms pv c)"
  have "mset (map ?c costs) = mset (map ?c costs')"
    using assms(1) by (metis mset_map)
  then have "sum_list (map ?c costs) = sum_list (map ?c costs')"
    by (metis sum_mset_sum_list)
  moreover have "\<And>a b. ?ev (add L a b) = ?ev a + ?ev b"
    using assms(2) by simp
  ultimately show ?thesis
    by (simp add: elbo_loop_foldl foldl_add_denote [where ev = ?ev] comp_def)
qed

text \<open>Two cost terms in both orders, evaluated in the term model.\<close>

theorem elbo_loop_permutation_witness:
  "mset [Number 2, Number 3] = mset [Number 3, Number 2] \<and>
   - to_data expr_lib (apply_optimizer expr_lib
        (elbo_loop expr_lib (fst (terms_from_trace expr_lib (\<lambda>tr. tr) guide_trace)) {''p''}
           (Number 0) [Number 2, Number 3])) =
   - to_data expr_lib (apply_optimizer expr_lib
        (elbo_loop expr_lib (fst (terms_from_trace expr_lib (\<lambda>tr. tr) guide_trace)) {''p''}
           (Number 0) [Number 3, Number 2]))"
proof -
  have perm: "mset [Number 2, Number 3] = mset [Number 3, Number 2]"
    by (simp add: add_mset_commute)
  have additive: "\<forall>a b. to_data expr_lib (apply_optimizer expr_lib (add expr_lib a b)) =
      to_data expr_lib (apply_optimizer expr_lib a) + to_data expr_lib (apply_optimizer expr_lib b)"
    by (simp add: expr_lib_def)
  show ?thesis
    using perm elbo_loop_permutation [OF perm additive] by blast
qed

end
